theory Spec2Isabelle
  imports Complex_Main
begin

section \<open>Python values, exceptions and the observable state\<close>

text \<open>
  The program is the single class \<open>YouTubeMarketingGenerator\<close> of
  \<open>youtube_to_instagram.py\<close> with its \<open>main\<close> function. Everything it does goes
  through four libraries (\<open>os\<close>, \<open>yt_dlp\<close>, \<open>transformers\<close>, \<open>moviepy\<close>). The
  libraries are not part of the program: they are parameters of the model (the record
  \<open>env\<close> below), each a function on an external world of an arbitrary type \<open>'w\<close> that may
  return a value or raise. The program itself is modelled in full: every call it makes,
  with the arguments it passes, every \<open>try\<close>/\<open>except\<close>, every logger call and every
  \<open>print\<close>.

  Conventions.
  \<^item> A Python \<open>str\<close> is a HOL \<open>string\<close>, one \<open>char\<close> per code point (HOL characters
    have 8 bits, so the code points covered are 0 to 255).
  \<^item> Times in seconds (Python \<open>float\<close>, and the \<open>int\<close> \<open>clip_duration\<close>) are exact
    rationals: the model computes the centring formula without rounding.
  \<^item> An exception that is an instance of \<open>Exception\<close> is a value of \<open>exn\<close>; a call that
    can raise returns \<open>exn + 'a\<close> with \<open>Inl\<close> for the raise.
  \<^item> \<open>os.path.join\<close> is the POSIX one.
\<close>

datatype exn = IndexError | KeyError | TypeError | AttributeError | Raised string

text \<open>The Python values a text-generation call or an info dictionary can hold.\<close>

datatype py = PyNone | PyInt int | PyStr string | PyList "py list" | PyDict "(string \<times> py) list"

datatype level = INFO | WARNING | ERROR

text \<open>
  A formatted message: \<open>Text s\<close> is the string \<open>s\<close>; \<open>WithExn s e\<close> is the f-string
  \<open>f"s{e}"\<close>, kept with the exception itself since \<open>str(e)\<close> is the library's business.
\<close>

datatype message = Text string | WithExn string exn

record ydl_params =
  format :: string
  outtmpl :: string
  nooverwrites :: bool
  no_color :: bool

text \<open>
  A \<open>moviepy\<close> clip object, with the attributes the program or a claim reads:
  \<open>duration\<close> in seconds, the frame rate, the frame size (width, height), and an opaque
  description of the decoded pictures and sound.
\<close>

record video_clip =
  duration :: rat
  fps :: rat
  frame_size :: "nat \<times> nat"
  media :: string

text \<open>The library calls the program makes, with their arguments.\<close>

datatype call =
    Makedirs string bool
  | Pipeline string string
  | ExtractInfo ydl_params string bool
  | PrepareFilename ydl_params py
  | TextGenerator string nat nat
  | OpenClip string
  | Subclipped video_clip rat rat
  | WriteVideofile video_clip string string string nat

text \<open>
  The state threaded through the program: the external world, the library calls made so
  far (in order), the calls made on \<open>self.logger\<close> and the lines printed.
\<close>

record 'w state =
  world :: 'w
  calls :: "call list"
  logged :: "(level \<times> message) list"
  printed :: "message list"

type_synonym 'w text_gen = "string \<Rightarrow> nat \<Rightarrow> nat \<Rightarrow> 'w \<Rightarrow> (exn + py) \<times> 'w"

text \<open>
  The libraries: \<open>os.makedirs(name, exist_ok)\<close>,
  \<open>transformers.pipeline(task, model)\<close> (which returns the callable text generator),
  \<open>YoutubeDL(opts).extract_info(url, download)\<close>,
  \<open>YoutubeDL(opts).prepare_filename(info)\<close>, \<open>VideoFileClip(path)\<close>,
  \<open>clip.subclipped(start, end)\<close> and
  \<open>clip.write_videofile(path, codec, audio_codec, fps)\<close>.
\<close>

record 'w env =
  os_makedirs :: "string \<Rightarrow> bool \<Rightarrow> 'w \<Rightarrow> (exn + unit) \<times> 'w"
  transformers_pipeline :: "string \<Rightarrow> string \<Rightarrow> 'w \<Rightarrow> (exn + 'w text_gen) \<times> 'w"
  extract_info :: "ydl_params \<Rightarrow> string \<Rightarrow> bool \<Rightarrow> 'w \<Rightarrow> (exn + py) \<times> 'w"
  prepare_filename :: "ydl_params \<Rightarrow> py \<Rightarrow> 'w \<Rightarrow> (exn + string) \<times> 'w"
  VideoFileClip :: "string \<Rightarrow> 'w \<Rightarrow> (exn + video_clip) \<times> 'w"
  subclipped :: "video_clip \<Rightarrow> rat \<Rightarrow> rat \<Rightarrow> 'w \<Rightarrow> (exn + video_clip) \<times> 'w"
  write_videofile ::
    "video_clip \<Rightarrow> string \<Rightarrow> string \<Rightarrow> string \<Rightarrow> nat \<Rightarrow> 'w \<Rightarrow> (exn + unit) \<times> 'w"

text \<open>The object built by \<open>__init__\<close>: \<open>self.clip_duration\<close> and \<open>self.text_generator\<close>.\<close>

record 'w generator =
  clip_duration :: rat
  text_generator :: "'w text_gen"

text \<open>The dictionary returned by \<open>process_video\<close>, with its two keys.\<close>

record result =
  video_path :: string
  caption :: string

text \<open>A library call: it is recorded, then the library acts on the world.\<close>

definition extern :: "call \<Rightarrow> ('w \<Rightarrow> 'a \<times> 'w) \<Rightarrow> 'w state \<Rightarrow> 'a \<times> 'w state" where
  "extern c f st =
     (case f (world st) of (r, w) \<Rightarrow> (r, st\<lparr>world := w, calls := calls st @ [c]\<rparr>))"

definition log_msg :: "level \<Rightarrow> message \<Rightarrow> 'w state \<Rightarrow> 'w state" where
  "log_msg l m st = st\<lparr>logged := logged st @ [(l, m)]\<rparr>"

definition print_msg :: "message \<Rightarrow> 'w state \<Rightarrow> 'w state" where
  "print_msg m st = st\<lparr>printed := printed st @ [m]\<rparr>"

definition os_path_join :: "string \<Rightarrow> string \<Rightarrow> string" where
  "os_path_join a b =
     (if b \<noteq> [] \<and> hd b = CHR ''/'' then b
      else if a = [] \<or> last a = CHR ''/'' then a @ b
      else a @ ''/'' @ b)"

section \<open>Python operations used on the generated text\<close>

text \<open>\<open>x[i]\<close> for a literal index \<open>i \<ge> 0\<close>.\<close>

fun getitem_int :: "py \<Rightarrow> nat \<Rightarrow> exn + py" where
  "getitem_int (PyList xs) i = (if i < length xs then Inr (xs ! i) else Inl IndexError)"
| "getitem_int (PyStr s) i = (if i < length s then Inr (PyStr [s ! i]) else Inl IndexError)"
| "getitem_int (PyDict d) i = Inl KeyError"
| "getitem_int PyNone i = Inl TypeError"
| "getitem_int (PyInt n) i = Inl TypeError"

text \<open>\<open>x[k]\<close> for a string key \<open>k\<close>.\<close>

fun getitem_str :: "py \<Rightarrow> string \<Rightarrow> exn + py" where
  "getitem_str (PyDict d) k = (case map_of d k of Some v \<Rightarrow> Inr v | None \<Rightarrow> Inl KeyError)"
| "getitem_str (PyList xs) k = Inl TypeError"
| "getitem_str (PyStr s) k = Inl TypeError"
| "getitem_str PyNone k = Inl TypeError"
| "getitem_str (PyInt n) k = Inl TypeError"

text \<open>
  \<open>str.isspace\<close> on one character, for the code points below 256: tab to carriage
  return, the four separators 28 to 31, space, NEL (133) and no-break space (160).
\<close>

definition isspace :: "char \<Rightarrow> bool" where
  "isspace c =
     (let n = (of_char c :: nat)
      in (9 \<le> n \<and> n \<le> 13) \<or> (28 \<le> n \<and> n \<le> 32) \<or> n = 133 \<or> n = 160)"

definition strip :: "string \<Rightarrow> string" where
  "strip s = rev (dropWhile isspace (rev (dropWhile isspace s)))"

text \<open>\<open>x.strip()\<close>: only a \<open>str\<close> has the method.\<close>

fun strip_method :: "py \<Rightarrow> exn + string" where
  "strip_method (PyStr s) = Inr (strip s)"
| "strip_method (PyList xs) = Inl AttributeError"
| "strip_method (PyDict d) = Inl AttributeError"
| "strip_method PyNone = Inl AttributeError"
| "strip_method (PyInt n) = Inl AttributeError"

section \<open>The class \<open>YouTubeMarketingGenerator\<close>\<close>

text \<open>
  \<open>__init__\<close>. \<open>logging.basicConfig\<close> only chooses which logger calls are shown, so
  \<open>log_level\<close> has no effect on the model, which records the calls. \<open>os.makedirs\<close>
  stands outside the \<open>try\<close>; a failure to load the model is logged and raised again.
\<close>

definition init :: "'w env \<Rightarrow> rat \<Rightarrow> level \<Rightarrow> 'w state \<Rightarrow> (exn + 'w generator) \<times> 'w state" where
  "init env clip_dur log_level st =
     (case extern (Makedirs ''downloads'' True) (os_makedirs env ''downloads'' True) st of
        (Inl e, st1) \<Rightarrow> (Inl e, st1)
      | (Inr u, st1) \<Rightarrow>
          (case extern (Pipeline ''text-generation'' ''gpt2'')
                  (transformers_pipeline env ''text-generation'' ''gpt2'') st1 of
             (Inl e, st2) \<Rightarrow>
               (Inl e, log_msg ERROR (WithExn ''Failed to load text generation model: '' e) st2)
           | (Inr tg, st2) \<Rightarrow>
               (Inr \<lparr>clip_duration = clip_dur, text_generator = tg\<rparr>, st2)))"

text \<open>
  \<open>download_youtube_video\<close>. The \<open>YoutubeDL\<close> object of the \<open>with\<close> block is
  represented by the options it is built from, which both of its methods receive; the
  whole block stands inside the \<open>try\<close>.
\<close>

definition ydl_opts :: ydl_params where
  "ydl_opts =
     \<lparr>format = ''bestvideo[ext=mp4]+bestaudio[ext=m4a]/best[ext=mp4]/best'',
      outtmpl = os_path_join ''downloads'' ''source_video.%(ext)s'',
      nooverwrites = True,
      no_color = True\<rparr>"

definition download_failed :: "exn \<Rightarrow> 'w state \<Rightarrow> (exn + string) \<times> 'w state" where
  "download_failed e st = (Inl e, log_msg ERROR (WithExn ''Video download failed: '' e) st)"

definition download_youtube_video :: "'w env \<Rightarrow> string \<Rightarrow> 'w state \<Rightarrow> (exn + string) \<times> 'w state" where
  "download_youtube_video env url st =
     (case extern (ExtractInfo ydl_opts url True) (extract_info env ydl_opts url True) st of
        (Inl e, st1) \<Rightarrow> download_failed e st1
      | (Inr info_dict, st1) \<Rightarrow>
          (case extern (PrepareFilename ydl_opts info_dict)
                  (prepare_filename env ydl_opts info_dict) st1 of
             (Inl e, st2) \<Rightarrow> download_failed e st2
           | (Inr path, st2) \<Rightarrow>
               (Inr path, log_msg INFO (Text (''Successfully downloaded video: '' @ path)) st2)))"

text \<open>
  \<open>generate_marketing_caption\<close>. Every exception of the \<open>try\<close> block, the text
  generator's own or one raised by indexing or stripping its answer, ends in the
  \<open>except\<close> branch, which logs a warning and returns the default caption.
\<close>

definition fallback_caption :: string where
  "fallback_caption = ''Check out this amazing video!''"

definition caption_failed :: "exn \<Rightarrow> 'w state \<Rightarrow> (exn + string) \<times> 'w state" where
  "caption_failed e st =
     (Inr fallback_caption, log_msg WARNING (WithExn ''Caption generation failed: '' e) st)"

definition prompt :: string where
  "prompt = ''Create a catchy marketing caption for a viral video''"

text \<open>The expression \<open>out[0]['generated_text'].strip()\<close> of lines 85 to 91.\<close>

definition extract_caption :: "py \<Rightarrow> exn + string" where
  "extract_caption out =
     (case getitem_int out 0 of
        Inl e \<Rightarrow> Inl e
      | Inr first \<Rightarrow>
          (case getitem_str first ''generated_text'' of
             Inl e \<Rightarrow> Inl e
           | Inr generated \<Rightarrow> strip_method generated))"

definition generate_marketing_caption :: "'w generator \<Rightarrow> 'w state \<Rightarrow> (exn + string) \<times> 'w state" where
  "generate_marketing_caption g st =
     (case extern (TextGenerator prompt 100 1) (text_generator g prompt 100 1) st of
        (Inl e, st1) \<Rightarrow> caption_failed e st1
      | (Inr out, st1) \<Rightarrow>
          (case extract_caption out of
             Inl e \<Rightarrow> caption_failed e st1
           | Inr c \<Rightarrow> (Inr c, st1)))"

text \<open>
  The window of \<open>export_instagram_video\<close>: the start computed on line 116 and the end
  passed to \<open>subclipped\<close> on line 119, from the source's duration and
  \<open>self.clip_duration\<close>.
\<close>

definition clip_window :: "rat \<Rightarrow> rat \<Rightarrow> rat \<times> rat" where
  "clip_window total_duration clip_dur =
     (let start_time = max 0 ((total_duration - clip_dur) / 2)
      in (start_time, start_time + clip_dur))"

definition output_path :: string where
  "output_path = os_path_join ''downloads'' ''instagram_clip.mp4''"

definition export_failed :: "exn \<Rightarrow> 'w state \<Rightarrow> (exn + string) \<times> 'w state" where
  "export_failed e st = (Inl e, log_msg ERROR (WithExn ''Video export failed: '' e) st)"

text \<open>
  \<open>export_instagram_video\<close>. The argument \<open>start_time\<close> is bound again on line 116
  before anything reads it; \<open>clip_resized\<close> is the clip itself (the resizing is
  commented out).
\<close>

definition export_instagram_video ::
  "'w env \<Rightarrow> 'w generator \<Rightarrow> string \<Rightarrow> rat \<Rightarrow> 'w state \<Rightarrow> (exn + string) \<times> 'w state" where
  "export_instagram_video env g path start_time st =
     (case extern (Makedirs ''downloads'' True) (os_makedirs env ''downloads'' True) st of
        (Inl e, st1) \<Rightarrow> export_failed e st1
      | (Inr u, st1) \<Rightarrow>
          (case extern (OpenClip path) (VideoFileClip env path) st1 of
             (Inl e, st2) \<Rightarrow> export_failed e st2
           | (Inr full_clip, st2) \<Rightarrow>
               (case clip_window (duration full_clip) (clip_duration g) of
                  (start_time, end_time) \<Rightarrow>
                    (case extern (Subclipped full_clip start_time end_time)
                            (subclipped env full_clip start_time end_time) st2 of
                       (Inl e, st3) \<Rightarrow> export_failed e st3
                     | (Inr clip, st3) \<Rightarrow>
                         (let clip_resized = clip in
                          case extern (WriteVideofile clip_resized output_path ''libx264'' ''aac'' 30)
                                 (write_videofile env clip_resized output_path ''libx264'' ''aac'' 30)
                                 st3 of
                            (Inl e, st4) \<Rightarrow> export_failed e st4
                          | (Inr u', st4) \<Rightarrow> (Inr output_path, st4))))))"

text \<open>
  \<open>process_video\<close>: download, caption, export (with the default \<open>start_time = 0\<close>),
  then the result; any exception is logged and raised again.
\<close>

definition processing_failed :: "exn \<Rightarrow> 'w state \<Rightarrow> (exn + result) \<times> 'w state" where
  "processing_failed e st = (Inl e, log_msg ERROR (WithExn ''Video processing failed: '' e) st)"

definition process_video ::
  "'w env \<Rightarrow> 'w generator \<Rightarrow> string \<Rightarrow> 'w state \<Rightarrow> (exn + result) \<times> 'w state" where
  "process_video env g youtube_url st =
     (case download_youtube_video env youtube_url st of
        (Inl e, st1) \<Rightarrow> processing_failed e st1
      | (Inr path, st1) \<Rightarrow>
          (case generate_marketing_caption g st1 of
             (Inl e, st2) \<Rightarrow> processing_failed e st2
           | (Inr cap, st2) \<Rightarrow>
               (case export_instagram_video env g path 0 st2 of
                  (Inl e, st3) \<Rightarrow> processing_failed e st3
                | (Inr instagram_video, st3) \<Rightarrow>
                    (Inr \<lparr>video_path = instagram_video, caption = cap\<rparr>, st3))))"

section \<open>The function \<open>main\<close>\<close>

definition youtube_url :: string where
  "youtube_url = ''https://youtu.be/TLKxdTmk-zc?si=vHXFEtw68Rg6ZR7X''"

text \<open>
  The constructor is called outside the \<open>try\<close>, with its default arguments; an
  exception of \<open>process_video\<close> is caught and printed.
\<close>

definition main :: "'w env \<Rightarrow> 'w state \<Rightarrow> (exn + unit) \<times> 'w state" where
  "main env st =
     (case init env 15 INFO st of
        (Inl e, st1) \<Rightarrow> (Inl e, st1)
      | (Inr g, st1) \<Rightarrow>
          (case process_video env g youtube_url st1 of
             (Inl e, st2) \<Rightarrow> (Inr (), print_msg (WithExn ''Error processing video: '' e) st2)
           | (Inr r, st2) \<Rightarrow>
               (Inr (),
                print_msg (Text (''Marketing Caption: '' @ caption r))
                  (print_msg (Text (''Instagram Video: '' @ video_path r)) st2))))"

section \<open>A simulated environment\<close>

text \<open>
  One concrete world on which the program can be run: a disk (path to the duration and
  the description of a video file) and a video host (URL to the video it serves). Its
  libraries behave as documented: \<open>yt_dlp\<close> fills the template's \<open>%(ext)s\<close>, and
  with \<open>nooverwrites\<close> leaves an existing file alone; \<open>VideoFileClip\<close> needs the
  file to exist; \<open>subclipped\<close> refuses a start at or past the end of the clip and an
  end past it; \<open>write_videofile\<close> replaces the file at the path.
\<close>

record disk =
  files :: "string \<rightharpoonup> rat \<times> string"
  hosted :: "string \<rightharpoonup> rat \<times> string"

definition sim_filename :: "ydl_params \<Rightarrow> string" where
  "sim_filename opts = take (length (outtmpl opts) - 7) (outtmpl opts) @ ''mp4''"

definition sim_text_gen :: "disk text_gen" where
  "sim_text_gen p max_length n w =
     (Inr (PyList [PyDict [(''generated_text'', PyStr (p @ '': watch it now!  ''))]]), w)"

definition sim_extract_info :: "ydl_params \<Rightarrow> string \<Rightarrow> bool \<Rightarrow> disk \<Rightarrow> (exn + py) \<times> disk" where
  "sim_extract_info opts url download w =
     (case hosted w url of
        None \<Rightarrow> (Inl (Raised ''DownloadError''), w)
      | Some v \<Rightarrow>
          (Inr (PyDict [(''ext'', PyStr ''mp4'')]),
           if download \<and> \<not> (nooverwrites opts \<and> files w (sim_filename opts) \<noteq> None)
           then w\<lparr>files := (files w)(sim_filename opts \<mapsto> v)\<rparr> else w))"

definition sim_open :: "string \<Rightarrow> disk \<Rightarrow> (exn + video_clip) \<times> disk" where
  "sim_open path w =
     (case files w path of
        None \<Rightarrow> (Inl (Raised ''OSError''), w)
      | Some (d, m) \<Rightarrow>
          (Inr \<lparr>duration = d, fps = 25, frame_size = (1920, 1080), media = m\<rparr>, w))"

definition sim_subclipped :: "video_clip \<Rightarrow> rat \<Rightarrow> rat \<Rightarrow> disk \<Rightarrow> (exn + video_clip) \<times> disk" where
  "sim_subclipped c s e w =
     (if duration c \<le> s \<or> duration c < e then (Inl (Raised ''ValueError''), w)
      else (Inr (c\<lparr>duration := e - s, media := media c @ '' (cut)''\<rparr>), w))"

definition sim_write ::
  "video_clip \<Rightarrow> string \<Rightarrow> string \<Rightarrow> string \<Rightarrow> nat \<Rightarrow> disk \<Rightarrow> (exn + unit) \<times> disk" where
  "sim_write c path vcodec acodec rate w =
     (Inr (), w\<lparr>files := (files w)(path \<mapsto> (duration c, media c))\<rparr>)"

definition sim_env :: "disk env" where
  "sim_env =
     \<lparr>os_makedirs = (\<lambda>name exist_ok w. (Inr (), w)),
      transformers_pipeline = (\<lambda>task model w. (Inr sim_text_gen, w)),
      extract_info = sim_extract_info,
      prepare_filename = (\<lambda>opts info w. (Inr (sim_filename opts), w)),
      VideoFileClip = sim_open,
      subclipped = sim_subclipped,
      write_videofile = sim_write\<rparr>"

definition sim_generator :: "rat \<Rightarrow> disk generator" where
  "sim_generator d = \<lparr>clip_duration = d, text_generator = sim_text_gen\<rparr>"

text \<open>A state with an empty disk, the host serving a video of the given length at the URL.\<close>

definition sim_state :: "string \<Rightarrow> rat \<Rightarrow> disk state" where
  "sim_state url d =
     \<lparr>world = \<lparr>files = Map.empty, hosted = [url \<mapsto> (d, ''talk'')]\<rparr>,
      calls = [], logged = [], printed = []\<rparr>"

text \<open>A state in which the source file is already on the disk, with the given length.\<close>

definition sim_downloaded :: "rat \<Rightarrow> disk state" where
  "sim_downloaded d =
     \<lparr>world = \<lparr>files = [''downloads/source_video.mp4'' \<mapsto> (d, ''talk'')], hosted = Map.empty\<rparr>,
      calls = [], logged = [], printed = []\<rparr>"

text \<open>The host replaces the video it serves at a URL.\<close>

definition sim_reupload :: "string \<Rightarrow> rat \<times> string \<Rightarrow> disk state \<Rightarrow> disk state" where
  "sim_reupload url v st = st\<lparr>world := (world st)\<lparr>hosted := (hosted (world st))(url \<mapsto> v)\<rparr>\<rparr>"

text \<open>
  Text generators that raise, that return an empty list, and that return a text of
  three spaces.
\<close>

definition failing_text_gen :: "disk text_gen" where
  "failing_text_gen p max_length n w = (Inl (Raised ''out of memory''), w)"

definition empty_text_gen :: "disk text_gen" where
  "empty_text_gen p max_length n w = (Inr (PyList []), w)"

definition blank_text_gen :: "disk text_gen" where
  "blank_text_gen p max_length n w =
     (Inr (PyList [PyDict [(''generated_text'', PyStr ''   '')]]), w)"

text \<open>An environment in which the language model cannot be loaded.\<close>

definition env_model_unavailable :: "disk env" where
  "env_model_unavailable =
     sim_env\<lparr>transformers_pipeline := (\<lambda>task model w. (Inl (Raised ''model unavailable''), w))\<rparr>"

text \<open>
  An environment whose disk fills up during the write: the writer leaves the first five
  seconds at the path and raises.
\<close>

definition partial_write ::
  "video_clip \<Rightarrow> string \<Rightarrow> string \<Rightarrow> string \<Rightarrow> nat \<Rightarrow> disk \<Rightarrow> (exn + unit) \<times> disk" where
  "partial_write c path vcodec acodec rate w =
     (Inl (Raised ''No space left on device''),
      w\<lparr>files := (files w)(path \<mapsto> (5, media c @ '' (truncated)''))\<rparr>)"

definition env_disk_full :: "disk env" where
  "env_disk_full = sim_env\<lparr>write_videofile := partial_write\<rparr>"

lemmas sim_defs =
  sim_env_def sim_generator_def sim_state_def sim_text_gen_def sim_extract_info_def
  sim_open_def sim_subclipped_def sim_write_def sim_filename_def sim_downloaded_def
  sim_reupload_def failing_text_gen_def empty_text_gen_def blank_text_gen_def
  env_model_unavailable_def partial_write_def env_disk_full_def

lemmas program_defs =
  extern_def log_msg_def print_msg_def os_path_join_def ydl_opts_def output_path_def
  prompt_def fallback_caption_def youtube_url_def
  download_failed_def caption_failed_def export_failed_def processing_failed_def
  init_def download_youtube_video_def extract_caption_def generate_marketing_caption_def
  clip_window_def export_instagram_video_def process_video_def main_def

section \<open>Auxiliary facts\<close>

lemma all_dropWhile: "(\<forall>x\<in>set (dropWhile P s). P x) \<longleftrightarrow> (\<forall>x\<in>set s. P x)"
  by (induction s) auto

lemma strip_empty_iff: "strip s = [] \<longleftrightarrow> (\<forall>c\<in>set s. isspace c)"
  by (simp add: strip_def all_dropWhile)

text \<open>
  The only value on which \<open>out[0]['generated_text'].strip()\<close> does not raise is a list
  whose first element is a dictionary with a string under \<open>'generated_text'\<close>.
\<close>

lemma extract_caption_wellformed:
  "extract_caption out = Inr c \<longleftrightarrow>
     (\<exists>d rest s. out = PyList (PyDict d # rest)
        \<and> map_of d ''generated_text'' = Some (PyStr s) \<and> c = strip s)"
proof (cases out)
  case (PyList xs)
  show ?thesis
  proof (cases xs)
    case Nil
    with PyList show ?thesis by (simp add: extract_caption_def)
  next
    case (Cons first rest)
    show ?thesis
    proof (cases first)
      case (PyDict d)
      show ?thesis
      proof (cases "map_of d ''generated_text''")
        case None
        with PyList Cons PyDict show ?thesis by (simp add: extract_caption_def)
      next
        case (Some v)
        with PyList Cons PyDict show ?thesis
          by (cases v) (auto simp: extract_caption_def)
      qed
    qed (simp_all add: extract_caption_def PyList Cons)
  qed
next
  case (PyStr s)
  then show ?thesis by (simp add: extract_caption_def)
qed (simp_all add: extract_caption_def)

lemma generate_cases:
  assumes "text_generator g prompt 100 1 (world st) = (r, w)"
  shows "generate_marketing_caption g st =
     (let st1 = st\<lparr>world := w, calls := calls st @ [TextGenerator prompt 100 1]\<rparr> in
      case r of
        Inl e \<Rightarrow> caption_failed e st1
      | Inr out \<Rightarrow>
          (case extract_caption out of
             Inl e \<Rightarrow> caption_failed e st1
           | Inr c \<Rightarrow> (Inr c, st1)))"
  using assms by (simp add: generate_marketing_caption_def extern_def split: sum.splits)










section \<open>Clip selection\<close>






text \<open>
  C9. The \<open>start_time\<close> argument of \<open>export_instagram_video\<close> has no effect: for any two
  values of it and the same source, generator and state, the result (the returned path
  or exception) and the final state (the cut asked for, the file written, the log) are
  the same.
\<close>

theorem export_ignores_start_time:
  "export_instagram_video env g path a st = export_instagram_video env g path b st"
  by (simp add: export_instagram_video_def)

theorem export_ignores_start_time_witness:
  "export_instagram_video sim_env (sim_generator 15) ''downloads/source_video.mp4'' 0
       (sim_downloaded 40) =
   export_instagram_video sim_env (sim_generator 15) ''downloads/source_video.mp4'' 30
       (sim_downloaded 40)"
  by (rule export_ignores_start_time)

section \<open>The caption\<close>

text \<open>
  C3. \<open>generate_marketing_caption\<close> never raises. When the text generator raises, and
  when what it returns is not of the expected shape, the result is exactly
  \<open>"Check out this amazing video!"\<close> (and a warning is logged); when it returns a list
  whose first element holds a string under \<open>'generated_text'\<close>, the result is that
  string with leading and trailing whitespace stripped.
\<close>

theorem caption_never_fails:
  "(\<exists>c st'. generate_marketing_caption g st = (Inr c, st'))
   \<and> (\<forall>e w. text_generator g prompt 100 1 (world st) = (Inl e, w) \<longrightarrow>
         generate_marketing_caption g st =
           (Inr ''Check out this amazing video!'',
            st\<lparr>world := w, calls := calls st @ [TextGenerator prompt 100 1],
               logged := logged st @ [(WARNING, WithExn ''Caption generation failed: '' e)]\<rparr>))
   \<and> (\<forall>out w e. text_generator g prompt 100 1 (world st) = (Inr out, w)
          \<and> extract_caption out = Inl e \<longrightarrow>
         generate_marketing_caption g st =
           (Inr ''Check out this amazing video!'',
            st\<lparr>world := w, calls := calls st @ [TextGenerator prompt 100 1],
               logged := logged st @ [(WARNING, WithExn ''Caption generation failed: '' e)]\<rparr>))
   \<and> (\<forall>d rest s w. text_generator g prompt 100 1 (world st) =
            (Inr (PyList (PyDict d # rest)), w)
          \<and> map_of d ''generated_text'' = Some (PyStr s) \<longrightarrow>
         generate_marketing_caption g st =
           (Inr (strip s), st\<lparr>world := w, calls := calls st @ [TextGenerator prompt 100 1]\<rparr>))"
proof -
  obtain r w where rw: "text_generator g prompt 100 1 (world st) = (r, w)"
    by (cases "text_generator g prompt 100 1 (world st)")
  have never: "\<exists>c st'. generate_marketing_caption g st = (Inr c, st')"
    by (simp add: generate_cases [OF rw] caption_failed_def Let_def split: sum.splits)
  have raised: "\<forall>e w. text_generator g prompt 100 1 (world st) = (Inl e, w) \<longrightarrow>
         generate_marketing_caption g st =
           (Inr ''Check out this amazing video!'',
            st\<lparr>world := w, calls := calls st @ [TextGenerator prompt 100 1],
               logged := logged st @ [(WARNING, WithExn ''Caption generation failed: '' e)]\<rparr>)"
    by (simp add: generate_cases caption_failed_def fallback_caption_def log_msg_def)
  have malformed: "\<forall>out w e. text_generator g prompt 100 1 (world st) = (Inr out, w)
          \<and> extract_caption out = Inl e \<longrightarrow>
         generate_marketing_caption g st =
           (Inr ''Check out this amazing video!'',
            st\<lparr>world := w, calls := calls st @ [TextGenerator prompt 100 1],
               logged := logged st @ [(WARNING, WithExn ''Caption generation failed: '' e)]\<rparr>)"
    by (simp add: generate_cases caption_failed_def fallback_caption_def log_msg_def)
  have good: "\<forall>d rest s w. text_generator g prompt 100 1 (world st) =
            (Inr (PyList (PyDict d # rest)), w)
          \<and> map_of d ''generated_text'' = Some (PyStr s) \<longrightarrow>
         generate_marketing_caption g st =
           (Inr (strip s), st\<lparr>world := w, calls := calls st @ [TextGenerator prompt 100 1]\<rparr>)"
    by (simp add: generate_cases extract_caption_def)
  from never raised malformed good show ?thesis by blast
qed

text \<open>
  A generator that raises, one that returns an empty list (\<open>IndexError\<close>), and one
  that returns the prompt followed by a continuation and two spaces.
\<close>

theorem caption_never_fails_witness:
  "text_generator \<lparr>clip_duration = 15, text_generator = failing_text_gen\<rparr> prompt 100 1
       (world (sim_state ''u'' 40)) = (Inl (Raised ''out of memory''), world (sim_state ''u'' 40))
   \<and> fst (generate_marketing_caption \<lparr>clip_duration = 15, text_generator = failing_text_gen\<rparr>
         (sim_state ''u'' 40)) = Inr ''Check out this amazing video!''
   \<and> extract_caption (PyList []) = Inl IndexError
   \<and> fst (generate_marketing_caption \<lparr>clip_duration = 15, text_generator = empty_text_gen\<rparr>
         (sim_state ''u'' 40)) = Inr ''Check out this amazing video!''
   \<and> fst (generate_marketing_caption (sim_generator 15) (sim_state ''u'' 40)) =
         Inr ''Create a catchy marketing caption for a viral video: watch it now!''"
  using caption_never_fails [of "\<lparr>clip_duration = 15, text_generator = failing_text_gen\<rparr>" "sim_state ''u'' 40"]
    caption_never_fails [of "\<lparr>clip_duration = 15, text_generator = empty_text_gen\<rparr>" "sim_state ''u'' 40"]
    caption_never_fails [of "sim_generator 15" "sim_state ''u'' 40"]
  by (simp add: sim_defs prompt_def extract_caption_def strip_def isspace_def)

text \<open>
  C8, as stated, fails: a generated text of three spaces is a success of the adapter,
  and the caption returned is the empty string.
\<close>

theorem blank_text_gives_empty_caption:
  "fst (generate_marketing_caption \<lparr>clip_duration = 15, text_generator = blank_text_gen\<rparr>
         (sim_state ''u'' 40)) = Inr []"
  by (simp add: program_defs sim_defs strip_def isspace_def)

text \<open>
  C8, amended. The caption returned is empty exactly when the text generator returned a
  well-formed answer whose text is empty or consists of whitespace only; so it is
  non-empty whenever the adapter fails or answers malformed (it is the fallback), and on
  a well-formed answer whenever the text has a character that is not whitespace.
\<close>

theorem caption_empty_iff:
  assumes "generate_marketing_caption g st = (Inr c, st')"
  shows "c = [] \<longleftrightarrow>
    (\<exists>d rest s w. text_generator g prompt 100 1 (world st) = (Inr (PyList (PyDict d # rest)), w)
        \<and> map_of d ''generated_text'' = Some (PyStr s) \<and> (\<forall>ch\<in>set s. isspace ch))"
proof -
  obtain r w where rw: "text_generator g prompt 100 1 (world st) = (r, w)"
    by (cases "text_generator g prompt 100 1 (world st)")
  show ?thesis
  proof (cases r)
    case (Inl e)
    with rw assms show ?thesis
      by (auto simp: generate_cases caption_failed_def fallback_caption_def)
  next
    case (Inr out)
    show ?thesis
    proof (cases "extract_caption out")
      case (Inl e)
      then have "\<not> (\<exists>d rest s. out = PyList (PyDict d # rest)
                    \<and> map_of d ''generated_text'' = Some (PyStr s))"
        using extract_caption_wellformed [of out] by auto
      with Inl rw Inr assms show ?thesis
        by (auto simp: generate_cases caption_failed_def fallback_caption_def)
    next
      case (Inr c')
      then obtain d rest s where out: "out = PyList (PyDict d # rest)"
        and s: "map_of d ''generated_text'' = Some (PyStr s)" and c': "c' = strip s"
        using extract_caption_wellformed [of out c'] by auto
      from rw \<open>r = Inr out\<close> Inr assms have "c = c'"
        by (simp add: generate_cases)
      with out s c' rw \<open>r = Inr out\<close> show ?thesis
        by (auto simp: strip_empty_iff)
    qed
  qed
qed

theorem caption_empty_iff_witness:
  "generate_marketing_caption \<lparr>clip_duration = 15, text_generator = blank_text_gen\<rparr>
       (sim_state ''u'' 40) =
     (Inr [], (sim_state ''u'' 40)\<lparr>calls := [TextGenerator prompt 100 1]\<rparr>)
   \<and> text_generator \<lparr>clip_duration = 15, text_generator = blank_text_gen\<rparr> prompt 100 1
       (world (sim_state ''u'' 40)) =
     (Inr (PyList (PyDict [(''generated_text'', PyStr ''   '')] # [])), world (sim_state ''u'' 40))
   \<and> map_of [(''generated_text'', PyStr ''   '')] ''generated_text'' = Some (PyStr ''   '')
   \<and> list_all isspace ''   ''"
  using caption_empty_iff [of "\<lparr>clip_duration = 15, text_generator = blank_text_gen\<rparr>"
      "sim_state ''u'' 40" "[]" "(sim_state ''u'' 40)\<lparr>calls := [TextGenerator prompt 100 1]\<rparr>"]
  by (simp add: program_defs sim_defs strip_def isspace_def)

section \<open>The export\<close>






section \<open>The pipeline\<close>



section \<open>Loading the language model\<close>

text \<open>
  C5, as stated, fails: when the model cannot be loaded the constructor raises, and
  \<open>main\<close>, which calls it outside its \<open>try\<close>, ends with the same exception after
  the two calls \<open>makedirs\<close> and \<open>pipeline\<close>: no caption, no download, no export.
\<close>

theorem model_load_failure_aborts:
  "init env_model_unavailable 15 INFO (sim_state youtube_url 40) =
     (Inl (Raised ''model unavailable''),
      (sim_state youtube_url 40)
        \<lparr>calls := [Makedirs ''downloads'' True, Pipeline ''text-generation'' ''gpt2''],
         logged := [(ERROR, WithExn ''Failed to load text generation model: ''
                       (Raised ''model unavailable''))]\<rparr>)
   \<and> main env_model_unavailable (sim_state youtube_url 40) =
     (Inl (Raised ''model unavailable''),
      (sim_state youtube_url 40)
        \<lparr>calls := [Makedirs ''downloads'' True, Pipeline ''text-generation'' ''gpt2''],
         logged := [(ERROR, WithExn ''Failed to load text generation model: ''
                       (Raised ''model unavailable''))]\<rparr>)"
  by (simp add: init_def main_def extern_def log_msg_def sim_defs)

text \<open>
  C5, amended. A failure to load the language model is not recovered: the constructor
  logs it at error level and raises it again, so that no generator object exists, no
  default caption is substituted and no pipeline run takes place; \<open>main\<close> ends with
  that exception, having printed nothing.
\<close>

theorem model_load_failure_propagates:
  assumes "os_makedirs env ''downloads'' True (world st) = (Inr u, w1)"
    and "transformers_pipeline env ''text-generation'' ''gpt2'' w1 = (Inl e, w2)"
  shows "init env d lvl st =
      (Inl e,
       st\<lparr>world := w2,
          calls := calls st @ [Makedirs ''downloads'' True, Pipeline ''text-generation'' ''gpt2''],
          logged := logged st @ [(ERROR, WithExn ''Failed to load text generation model: '' e)]\<rparr>)
    \<and> main env st =
      (Inl e,
       st\<lparr>world := w2,
          calls := calls st @ [Makedirs ''downloads'' True, Pipeline ''text-generation'' ''gpt2''],
          logged := logged st @ [(ERROR, WithExn ''Failed to load text generation model: '' e)]\<rparr>)"
  using assms by (simp add: init_def main_def extern_def log_msg_def)

theorem model_load_failure_propagates_witness:
  "os_makedirs env_model_unavailable ''downloads'' True (world (sim_state youtube_url 40)) =
     (Inr (), world (sim_state youtube_url 40))
   \<and> transformers_pipeline env_model_unavailable ''text-generation'' ''gpt2''
       (world (sim_state youtube_url 40)) =
     (Inl (Raised ''model unavailable''), world (sim_state youtube_url 40))
   \<and> fst (init env_model_unavailable 15 INFO (sim_state youtube_url 40)) =
       Inl (Raised ''model unavailable'')
   \<and> fst (main env_model_unavailable (sim_state youtube_url 40)) =
       Inl (Raised ''model unavailable'')
   \<and> printed (snd (main env_model_unavailable (sim_state youtube_url 40))) = []"
proof -
  let ?st = "sim_state youtube_url 40"
  have m: "os_makedirs env_model_unavailable ''downloads'' True (world ?st) = (Inr (), world ?st)"
    by (simp add: sim_defs)
  have p: "transformers_pipeline env_model_unavailable ''text-generation'' ''gpt2'' (world ?st) =
     (Inl (Raised ''model unavailable''), world ?st)"
    by (simp add: sim_defs)
  note t = model_load_failure_propagates [OF m p]
  have i: "fst (init env_model_unavailable 15 INFO ?st) = Inl (Raised ''model unavailable'')"
    by (simp add: t)
  have r: "fst (main env_model_unavailable ?st) = Inl (Raised ''model unavailable'')"
    by (simp add: t)
  have q: "printed (snd (main env_model_unavailable ?st)) = []"
    by (simp add: t) (simp add: sim_defs)
  from m p i r q show ?thesis by - (intro conjI; assumption)
qed

section \<open>Running twice\<close>




end
